theory Spec2Isabelle
  imports Complex_Main
begin

section \<open>The location-tracking hook (src/hooks/useLocationTracking.ts)\<close>

text \<open>
  The hook \<^verbatim>\<open>useLocationTracking(driverId)\<close> keeps three pieces of React state
  (\<^verbatim>\<open>currentLocation\<close>, \<^verbatim>\<open>isTracking\<close>, \<^verbatim>\<open>error\<close>) and two refs
  (\<^verbatim>\<open>watchIdRef\<close>, \<^verbatim>\<open>intervalRef\<close>). Every function of the hook is embedded as a
  function from the hook's state to the hook's state. What the browser and the backend
  answer (the value an \<^verbatim>\<open>await\<close> resolves to, the handle \<^verbatim>\<open>watchPosition\<close> returns,
  the clock) is an argument of the function. An \<^verbatim>\<open>async\<close> function is one transition:
  the sequence of its synchronous segments, given the answers of its awaits.

  The calls the hook makes on its collaborators (the geolocation sensor, the permission
  query, the timers, the backend) are recorded, in order, in the field \<open>calls\<close>.
\<close>

subsection \<open>Data\<close>

text \<open>\<^verbatim>\<open>interface LocationData { lat; lng; address?; timestamp? }\<close>\<close>

record LocationData =
  lat :: real
  lng :: real
  address :: "string option"
  timestamp :: "int option"

text \<open>A \<^verbatim>\<open>GeolocationPosition\<close>: \<^verbatim>\<open>coords.latitude\<close>, \<^verbatim>\<open>coords.longitude\<close>, \<^verbatim>\<open>timestamp\<close>.\<close>

record GeolocationPosition =
  coords_latitude :: real
  coords_longitude :: real
  position_timestamp :: int

text \<open>
  A value that is thrown or that rejects a promise: an instance of \<^verbatim>\<open>Error\<close> with its
  message, or any other value (\<^verbatim>\<open>err instanceof Error\<close> is false).
\<close>

datatype thrown = ErrorInstance string | NonError

text \<open>
  What the sensor hands to an error callback: a \<^verbatim>\<open>GeolocationPositionError\<close> with its
  \<^verbatim>\<open>code\<close>, or some other value.
\<close>

datatype sensor_failure = GeolocationPositionError nat | OtherFailure thrown

definition PERMISSION_DENIED :: nat where "PERMISSION_DENIED = 1"
definition POSITION_UNAVAILABLE :: nat where "POSITION_UNAVAILABLE = 2"
definition TIMEOUT :: nat where "TIMEOUT = 3"

datatype PermissionState = granted | denied | prompt

text \<open>\<^verbatim>\<open>navigator.permissions.query\<close> resolves to a status or rejects.\<close>

datatype permission_query = QueryResolves PermissionState | QueryRejects thrown

text \<open>
  The backend's answer to \<^verbatim>\<open>.update(...).eq('id', driverId)\<close>: the promise resolves to
  \<^verbatim>\<open>{ error }\<close> (\<open>None\<close> is \<^verbatim>\<open>null\<close>) or rejects.
\<close>

datatype sink_response = SinkResolved "thrown option" | SinkRejected thrown

text \<open>A row of the table \<^verbatim>\<open>drivers\<close> as the hook reads it; \<open>None\<close> is \<^verbatim>\<open>null\<close>.\<close>

record driver_row =
  current_latitude :: "real option"
  current_longitude :: "real option"
  last_location_update :: "string option"

text \<open>
  The answer to \<^verbatim>\<open>.select(...).eq('id', driverId).single()\<close>: \<^verbatim>\<open>{ data, error }\<close>, or a
  rejection.
\<close>

datatype select_response =
  SelectResolved "driver_row option" "thrown option" | SelectRejected thrown

text \<open>The calls on the collaborators.\<close>

datatype call =
    PermissionsQuery
  | GetCurrentPosition
  | WatchPosition
  | ClearWatch nat
  | SetInterval
  | ClearInterval nat
  | SinkUpdate string real real int
  | SinkSelect string

record hook_state =
  currentLocation :: "LocationData option"
  isTracking :: bool
  error :: "string option"
  watchIdRef :: "nat option"
  intervalRef :: "nat option"
  calls :: "call list"

definition initial_state :: hook_state where
  "initial_state =
     \<lparr>currentLocation = None, isTracking = False, error = None,
      watchIdRef = None, intervalRef = None, calls = []\<rparr>"

definition record_call :: "call \<Rightarrow> hook_state \<Rightarrow> hook_state" where
  "record_call c s = s\<lparr>calls := calls s @ [c]\<rparr>"

subsection \<open>JavaScript truthiness\<close>

text \<open>
  \<^verbatim>\<open>driverId?: string\<close>: \<open>None\<close> is \<^verbatim>\<open>undefined\<close>. \<^verbatim>\<open>undefined\<close> and the empty string are
  falsy.
\<close>

definition truthy_string :: "string option \<Rightarrow> bool" where
  "truthy_string x = (case x of None \<Rightarrow> False | Some v \<Rightarrow> v \<noteq> [])"

text \<open>A number that is \<^verbatim>\<open>null\<close> or \<open>0\<close> is falsy.\<close>

definition truthy_number :: "real option \<Rightarrow> bool" where
  "truthy_number x = (case x of None \<Rightarrow> False | Some v \<Rightarrow> v \<noteq> 0)"

subsection \<open>Messages\<close>

text \<open>
  The messages of the source. The source writes two arrows (U+2192) in the
  blocked-permission message; they are written \<open>->\<close> here.
\<close>

definition msg_not_supported :: string where
  "msg_not_supported =
     ''Geolocation is not supported by this browser. Please use a modern browser with location support.''"

definition msg_permission_blocked :: string where
  "msg_permission_blocked =
     ''Location permission is blocked. Please enable location access in your browser settings (address bar -> location icon -> Allow) and try again.''"

definition msg_position_unavailable :: string where
  "msg_position_unavailable =
     ''Location information is unavailable. Please check your device GPS/WiFi settings and ensure you are in an area with good signal.''"

definition msg_request_timed_out :: string where
  "msg_request_timed_out =
     ''Location request timed out. Please try again in an area with better GPS signal.''"

definition msg_unknown_error :: string where
  "msg_unknown_error = ''An unknown error occurred while requesting location''"

definition msg_failed_to_update :: string where
  "msg_failed_to_update = ''Failed to update location''"

definition msg_failed_to_start :: string where
  "msg_failed_to_start = ''Failed to start location tracking''"

definition msg_failed_to_track :: string where
  "msg_failed_to_track = ''Failed to track location''"

definition msg_permission_revoked :: string where
  "msg_permission_revoked =
     ''Location permission was revoked. Please re-enable location access to continue tracking.''"

definition msg_signal_lost :: string where
  "msg_signal_lost = ''Location signal lost. Please check your GPS/WiFi connection.''"

definition msg_tracking_timed_out :: string where
  "msg_tracking_timed_out = ''Location tracking timed out. Retrying...''"

subsection \<open>updateDriverLocation\<close>

text \<open>
  The \<^verbatim>\<open>try\<close> block of \<^verbatim>\<open>updateDriverLocation\<close>: \<^verbatim>\<open>const { error } = await ...\<close>, then
  \<^verbatim>\<open>if (error) throw error\<close>. The result is the value thrown, if any.
\<close>

definition updateDriverLocation_try :: "sink_response \<Rightarrow> thrown option" where
  "updateDriverLocation_try r =
     (case r of
        SinkRejected e \<Rightarrow> Some e
      | SinkResolved None \<Rightarrow> None
      | SinkResolved (Some e) \<Rightarrow> Some e)"

text \<open>
  \<^verbatim>\<open>updateDriverLocation(lat, lng)\<close> of the hook called with \<open>driverId\<close>; \<open>now\<close> is the
  clock read by \<^verbatim>\<open>new Date()\<close> and \<open>r\<close> the backend's answer. The first component of the
  result is the value the function throws to its caller, if any.
\<close>

definition updateDriverLocation ::
  "string option \<Rightarrow> real \<Rightarrow> real \<Rightarrow> int \<Rightarrow> sink_response \<Rightarrow> hook_state
     \<Rightarrow> thrown option \<times> hook_state" where
  "updateDriverLocation driverId la lo now r s =
     (if \<not> truthy_string driverId then (None, s)
      else
        let s1 = record_call (SinkUpdate (the driverId) la lo now) s in
        case updateDriverLocation_try r of
          None \<Rightarrow> (None, s1)
        | Some err \<Rightarrow>
            (None,
             s1\<lparr>error := Some (case err of ErrorInstance m \<Rightarrow> m
                                | NonError \<Rightarrow> msg_failed_to_update)\<rparr>))"

subsection \<open>getCurrentPosition\<close>

text \<open>The error callback handed to \<^verbatim>\<open>navigator.geolocation.getCurrentPosition\<close>.\<close>

definition getCurrentPosition_reject :: "sensor_failure \<Rightarrow> thrown" where
  "getCurrentPosition_reject err =
     (case err of
        GeolocationPositionError code \<Rightarrow>
          (if code = PERMISSION_DENIED then ErrorInstance msg_permission_blocked
           else if code = POSITION_UNAVAILABLE then ErrorInstance msg_position_unavailable
           else if code = TIMEOUT then ErrorInstance msg_request_timed_out
           else ErrorInstance msg_unknown_error)
      | OtherFailure e \<Rightarrow> e)"

text \<open>
  The hook's \<^verbatim>\<open>getCurrentPosition()\<close>: \<open>geo\<close> says whether \<^verbatim>\<open>navigator.geolocation\<close>
  exists, \<open>answer\<close> is what the sensor answers to the one-shot request. The promise
  rejects (\<open>Inl\<close>) or resolves (\<open>Inr\<close>).
\<close>

definition getCurrentPosition ::
  "bool \<Rightarrow> sensor_failure + GeolocationPosition \<Rightarrow> hook_state
     \<Rightarrow> (thrown + GeolocationPosition) \<times> hook_state" where
  "getCurrentPosition geo answer s =
     (if \<not> geo then (Inl (ErrorInstance msg_not_supported), s)
      else
        let s1 = record_call GetCurrentPosition s in
        case answer of
          Inr position \<Rightarrow> (Inr position, s1)
        | Inl err \<Rightarrow> (Inl (getCurrentPosition_reject err), s1))"

subsection \<open>startTracking\<close>

text \<open>What the environment answers during one call of \<^verbatim>\<open>startTracking\<close>.\<close>

record start_env =
  geolocation :: bool
  permissions :: "permission_query option"
  one_shot :: "sensor_failure + GeolocationPosition"
  sink_now :: int
  sink_answer :: sink_response
  watch_id :: nat
  interval_id :: nat

text \<open>
  The inner \<^verbatim>\<open>try\<close> block of the permission check: the query, then the \<^verbatim>\<open>throw\<close> when
  the state is \<^verbatim>\<open>'denied'\<close>.
\<close>

definition permission_check_try ::
  "permission_query \<Rightarrow> hook_state \<Rightarrow> thrown option \<times> hook_state" where
  "permission_check_try q s =
     (let s1 = record_call PermissionsQuery s in
      case q of
        QueryRejects e \<Rightarrow> (Some e, s1)
      | QueryResolves st \<Rightarrow>
          (if st = denied then (Some (ErrorInstance msg_permission_blocked), s1)
           else (None, s1)))"

text \<open>
  The permission check with its \<^verbatim>\<open>catch (permErr)\<close>, which only writes a warning to the
  console: whatever the inner block throws ends there.
\<close>

definition permission_check :: "permission_query option \<Rightarrow> hook_state \<Rightarrow> hook_state" where
  "permission_check p s =
     (case p of
        None \<Rightarrow> s
      | Some q \<Rightarrow> (case permission_check_try q s of (_, s1) \<Rightarrow> s1))"

definition toLocationData :: "GeolocationPosition \<Rightarrow> LocationData" where
  "toLocationData position =
     \<lparr>lat = coords_latitude position, lng = coords_longitude position,
      address = None, timestamp = Some (position_timestamp position)\<rparr>"

text \<open>
  The outer \<^verbatim>\<open>try\<close> block of \<^verbatim>\<open>startTracking\<close>. The first component is the value that
  reaches the outer \<^verbatim>\<open>catch\<close>, if any.
\<close>

definition startTracking_try ::
  "string option \<Rightarrow> start_env \<Rightarrow> hook_state \<Rightarrow> thrown option \<times> hook_state" where
  "startTracking_try driverId env s =
     (let s1 = s\<lparr>error := None\<rparr> in
      if \<not> geolocation env then (Some (ErrorInstance msg_not_supported), s1)
      else
        let s2 = permission_check (permissions env) s1 in
        case getCurrentPosition (geolocation env) (one_shot env) s2 of
          (Inl e, s3) \<Rightarrow> (Some e, s3)
        | (Inr position, s3) \<Rightarrow>
            let locationData = toLocationData position;
                s4 = s3\<lparr>currentLocation := Some locationData\<rparr>
            in
            (case updateDriverLocation driverId (lat locationData) (lng locationData)
                    (sink_now env) (sink_answer env) s4 of
               (Some e, s5) \<Rightarrow> (Some e, s5)
             | (None, s5) \<Rightarrow>
                 let s6 = (record_call WatchPosition s5)\<lparr>watchIdRef := Some (watch_id env)\<rparr>;
                     s7 = (record_call SetInterval s6)\<lparr>intervalRef := Some (interval_id env)\<rparr>
                 in (None, s7\<lparr>isTracking := True\<rparr>)))"

text \<open>
  \<^verbatim>\<open>startTracking\<close>: the \<^verbatim>\<open>try\<close> block and the \<^verbatim>\<open>catch\<close>, which sets the error message
  and \<^verbatim>\<open>setIsTracking(false)\<close>. The returned promise never rejects.
\<close>

definition startTracking :: "string option \<Rightarrow> start_env \<Rightarrow> hook_state \<Rightarrow> hook_state" where
  "startTracking driverId env s =
     (case startTracking_try driverId env s of
        (None, s1) \<Rightarrow> s1
      | (Some err, s1) \<Rightarrow>
          s1\<lparr>error := Some (case err of ErrorInstance m \<Rightarrow> m
                              | NonError \<Rightarrow> msg_failed_to_start),
             isTracking := False\<rparr>)"

subsection \<open>The callbacks installed by startTracking\<close>

text \<open>
  The success callback of \<^verbatim>\<open>watchPosition\<close>. The promise of \<^verbatim>\<open>updateDriverLocation\<close> is
  not awaited, so nothing it could throw reaches the callback: only its effect on the
  state is kept.
\<close>

definition watchPosition_success ::
  "string option \<Rightarrow> GeolocationPosition \<Rightarrow> int \<Rightarrow> sink_response \<Rightarrow> hook_state \<Rightarrow> hook_state" where
  "watchPosition_success driverId position now r s =
     (let newLocationData = toLocationData position;
          s1 = s\<lparr>currentLocation := Some newLocationData\<rparr>
      in snd (updateDriverLocation driverId (lat newLocationData) (lng newLocationData) now r s1))"

text \<open>The error callback of \<^verbatim>\<open>watchPosition\<close>.\<close>

definition watchPosition_error :: "sensor_failure \<Rightarrow> hook_state \<Rightarrow> hook_state" where
  "watchPosition_error err s =
     (let errorMessage =
            (case err of
               GeolocationPositionError code \<Rightarrow>
                 (if code = PERMISSION_DENIED then msg_permission_revoked
                  else if code = POSITION_UNAVAILABLE then msg_signal_lost
                  else if code = TIMEOUT then msg_tracking_timed_out
                  else msg_failed_to_track)
             | OtherFailure e \<Rightarrow> msg_failed_to_track)
      in s\<lparr>error := Some errorMessage, isTracking := False\<rparr>)"

text \<open>
  The callback of \<^verbatim>\<open>setInterval\<close>: a one-shot request and the same dispatch, inside a
  \<^verbatim>\<open>try\<close> whose \<^verbatim>\<open>catch\<close> only writes to the console.
\<close>

definition interval_callback ::
  "string option \<Rightarrow> bool \<Rightarrow> sensor_failure + GeolocationPosition \<Rightarrow> int \<Rightarrow> sink_response
     \<Rightarrow> hook_state \<Rightarrow> hook_state" where
  "interval_callback driverId geo answer now r s =
     (case getCurrentPosition geo answer s of
        (Inl e, s1) \<Rightarrow> s1
      | (Inr position, s1) \<Rightarrow>
          let locationData = toLocationData position;
              s2 = s1\<lparr>currentLocation := Some locationData\<rparr>
          in (case updateDriverLocation driverId (lat locationData) (lng locationData) now r s2 of
                (_, s3) \<Rightarrow> s3))"

subsection \<open>stopTracking and updateLocation\<close>

text \<open>
  A watch id in \<^verbatim>\<open>watchIdRef\<close> was returned by \<^verbatim>\<open>navigator.geolocation.watchPosition\<close>,
  so \<^verbatim>\<open>navigator.geolocation\<close> exists when \<^verbatim>\<open>clearWatch\<close> is called.
\<close>

definition stopTracking :: "hook_state \<Rightarrow> hook_state" where
  "stopTracking s =
     (let s1 = (case watchIdRef s of
                  None \<Rightarrow> s
                | Some w \<Rightarrow> (record_call (ClearWatch w) s)\<lparr>watchIdRef := None\<rparr>);
          s2 = (case intervalRef s1 of
                  None \<Rightarrow> s1
                | Some i \<Rightarrow> (record_call (ClearInterval i) s1)\<lparr>intervalRef := None\<rparr>)
      in s2\<lparr>isTracking := False, error := None\<rparr>)"

text \<open>
  \<^verbatim>\<open>updateLocation(lat, lng)\<close>; \<open>date_now\<close> is \<^verbatim>\<open>Date.now()\<close>. The call of
  \<^verbatim>\<open>updateDriverLocation\<close> is awaited outside any \<^verbatim>\<open>try\<close>: what it throws, the caller
  gets.
\<close>

definition updateLocation ::
  "string option \<Rightarrow> real \<Rightarrow> real \<Rightarrow> int \<Rightarrow> int \<Rightarrow> sink_response \<Rightarrow> hook_state
     \<Rightarrow> thrown option \<times> hook_state" where
  "updateLocation driverId la lo date_now now r s =
     (let locationData = \<lparr>lat = la, lng = lo, address = None, timestamp = Some date_now\<rparr>;
          s1 = s\<lparr>currentLocation := Some locationData\<rparr>
      in updateDriverLocation driverId la lo now r s1)"

subsection \<open>Reading the stored position back\<close>

text \<open>
  The object literal built from a row, in \<^verbatim>\<open>fetchCurrentLocation\<close> and in the realtime
  handler alike: \<open>parsed\<close> is \<^verbatim>\<open>new Date(last_location_update).getTime()\<close> and
  \<open>date_now\<close> is \<^verbatim>\<open>Date.now()\<close>. It is built only when both coordinates are truthy.
\<close>

definition row_location :: "driver_row \<Rightarrow> int \<Rightarrow> int \<Rightarrow> LocationData" where
  "row_location row parsed date_now =
     \<lparr>lat = the (current_latitude row), lng = the (current_longitude row), address = None,
      timestamp = Some (if truthy_string (last_location_update row) then parsed else date_now)\<rparr>"

definition msg_data_is_null :: string where
  "msg_data_is_null = ''Cannot read properties of null''"

text \<open>
  The \<^verbatim>\<open>try\<close> block of \<^verbatim>\<open>fetchCurrentLocation\<close>, after the request was sent. Reading
  \<^verbatim>\<open>data.current_latitude\<close> when \<^verbatim>\<open>data\<close> is \<^verbatim>\<open>null\<close> throws a \<^verbatim>\<open>TypeError\<close>.
\<close>

definition fetchCurrentLocation_try ::
  "select_response \<Rightarrow> int \<Rightarrow> int \<Rightarrow> hook_state \<Rightarrow> thrown option \<times> hook_state" where
  "fetchCurrentLocation_try r parsed date_now s =
     (case r of
        SelectRejected e \<Rightarrow> (Some e, s)
      | SelectResolved data (Some e) \<Rightarrow> (Some e, s)
      | SelectResolved None None \<Rightarrow> (Some (ErrorInstance msg_data_is_null), s)
      | SelectResolved (Some row) None \<Rightarrow>
          (if truthy_number (current_latitude row) \<and> truthy_number (current_longitude row)
           then (None, s\<lparr>currentLocation := Some (row_location row parsed date_now)\<rparr>)
           else (None, s)))"

text \<open>\<^verbatim>\<open>fetchCurrentLocation\<close>: the \<^verbatim>\<open>catch\<close> only writes to the console.\<close>

definition fetchCurrentLocation ::
  "string option \<Rightarrow> select_response \<Rightarrow> int \<Rightarrow> int \<Rightarrow> hook_state \<Rightarrow> hook_state" where
  "fetchCurrentLocation driverId r parsed date_now s =
     (if \<not> truthy_string driverId then s
      else
        let s1 = record_call (SinkSelect (the driverId)) s in
        case fetchCurrentLocation_try r parsed date_now s1 of (_, s2) \<Rightarrow> s2)"

text \<open>The effect that fetches on mount.\<close>

definition mount_effect ::
  "string option \<Rightarrow> select_response \<Rightarrow> int \<Rightarrow> int \<Rightarrow> hook_state \<Rightarrow> hook_state" where
  "mount_effect driverId r parsed date_now s =
     (if truthy_string driverId \<and> driverId \<noteq> Some ''all''
      then fetchCurrentLocation driverId r parsed date_now s
      else s)"

text \<open>The handler of the realtime subscription; \<open>row\<close> is \<^verbatim>\<open>payload.new\<close>.\<close>

definition realtime_handler :: "driver_row \<Rightarrow> int \<Rightarrow> int \<Rightarrow> hook_state \<Rightarrow> hook_state" where
  "realtime_handler row parsed date_now s =
     (if truthy_number (current_latitude row) \<and> truthy_number (current_longitude row)
      then s\<lparr>currentLocation := Some (row_location row parsed date_now)\<rparr>
      else s)"

text \<open>
  The effect that subscribes returns at once when \<^verbatim>\<open>!driverId || driverId === 'all'\<close>:
  then no handler is installed and no update arrives.
\<close>

definition realtime_update ::
  "string option \<Rightarrow> driver_row \<Rightarrow> int \<Rightarrow> int \<Rightarrow> hook_state \<Rightarrow> hook_state" where
  "realtime_update driverId row parsed date_now s =
     (if \<not> truthy_string driverId \<or> driverId = Some ''all'' then s
      else realtime_handler row parsed date_now s)"

subsection \<open>The tracker component that calls the hook\<close>

text \<open>
  \<^verbatim>\<open>DriverLocationTracker\<close> (its \<^verbatim>\<open>driverId\<close> is a \<^verbatim>\<open>string\<close>):
  \<^verbatim>\<open>const canTrack = driverId && driverId !== 'all'\<close>.
\<close>

definition canTrack :: "string \<Rightarrow> bool" where
  "canTrack driverId = (driverId \<noteq> [] \<and> driverId \<noteq> ''all'')"

text \<open>
  The start button is rendered when \<^verbatim>\<open>canTrack\<close> holds and \<^verbatim>\<open>isTracking\<close> does not, and
  it is disabled when \<^verbatim>\<open>!hasPermission || permissionStatus === 'denied'\<close>
  (\<open>None\<close> is the status \<^verbatim>\<open>null\<close>).
\<close>

definition start_button_enabled ::
  "string \<Rightarrow> bool \<Rightarrow> PermissionState option \<Rightarrow> hook_state \<Rightarrow> bool" where
  "start_button_enabled driverId hasPermission permissionStatus s =
     (canTrack driverId \<and> \<not> isTracking s
      \<and> \<not> (\<not> hasPermission \<or> permissionStatus = Some denied))"

text \<open>
  A click on the start button runs \<^verbatim>\<open>handleStartTracking\<close>, which awaits
  \<^verbatim>\<open>startTracking()\<close>; without an enabled button there is nothing to click.
\<close>

definition click_start ::
  "string \<Rightarrow> bool \<Rightarrow> PermissionState option \<Rightarrow> start_env \<Rightarrow> hook_state \<Rightarrow> hook_state" where
  "click_start driverId hasPermission permissionStatus env s =
     (if start_button_enabled driverId hasPermission permissionStatus s
      then startTracking (Some driverId) env s
      else s)"

subsection \<open>Sessions\<close>

text \<open>
  What can happen to a mounted hook: a call of one of the returned functions, or a
  callback. The callbacks are accepted in every state, which is more than the browser
  does (it calls back only for a watch or a timer that is installed).
\<close>

datatype event =
    Start start_env
  | Stop
  | WatchFix GeolocationPosition int sink_response
  | WatchFailure sensor_failure
  | Tick bool "sensor_failure + GeolocationPosition" int sink_response
  | Manual real real int int sink_response
  | Fetched select_response int int
  | Realtime driver_row int int

fun step :: "string option \<Rightarrow> event \<Rightarrow> hook_state \<Rightarrow> hook_state" where
  "step d (Start env) s = startTracking d env s"
| "step d Stop s = stopTracking s"
| "step d (WatchFix position now r) s = watchPosition_success d position now r s"
| "step d (WatchFailure err) s = watchPosition_error err s"
| "step d (Tick geo answer now r) s = interval_callback d geo answer now r s"
| "step d (Manual la lo date_now now r) s = snd (updateLocation d la lo date_now now r s)"
| "step d (Fetched r parsed date_now) s = mount_effect d r parsed date_now s"
| "step d (Realtime row parsed date_now) s = realtime_update d row parsed date_now s"

fun run :: "string option \<Rightarrow> event list \<Rightarrow> hook_state \<Rightarrow> hook_state" where
  "run d [] s = s"
| "run d (e # es) s = run d es (step d e s)"

text \<open>The calls of a log that go to the sensor, and those that go to the backend's update.\<close>

fun is_sensor_call :: "call \<Rightarrow> bool" where
  "is_sensor_call GetCurrentPosition = True"
| "is_sensor_call WatchPosition = True"
| "is_sensor_call (ClearWatch w) = True"
| "is_sensor_call c = False"

fun is_sink_call :: "call \<Rightarrow> bool" where
  "is_sink_call (SinkUpdate d la lo now) = True"
| "is_sink_call c = False"

text \<open>
  The invariant of a session in the words of the specification: both handles are
  non-null while the session is active, and both are null while it is not.
\<close>

definition handles_match_active :: "hook_state \<Rightarrow> bool" where
  "handles_match_active s =
     (if isTracking s then watchIdRef s \<noteq> None \<and> intervalRef s \<noteq> None
      else watchIdRef s = None \<and> intervalRef s = None)"

subsection \<open>Example sessions\<close>

text \<open>
  A browser with the sensor and the permission query, permission granted, that answers
  the one-shot request with a position; the backend accepts the update.
\<close>

definition driver42_position :: GeolocationPosition where
  "driver42_position =
     \<lparr>coords_latitude = 12.9, coords_longitude = 77.6, position_timestamp = 1000\<rparr>"

definition driver42_env :: start_env where
  "driver42_env =
     \<lparr>geolocation = True, permissions = Some (QueryResolves granted),
      one_shot = Inr driver42_position, sink_now = 2000, sink_answer = SinkResolved None,
      watch_id = 1, interval_id = 2\<rparr>"

text \<open>
  A browser whose permission query reports \<^verbatim>\<open>denied\<close> and whose sensor, asked all the
  same, rejects the one-shot request with \<^verbatim>\<open>PERMISSION_DENIED\<close>.
\<close>

definition denied_env :: start_env where
  "denied_env =
     \<lparr>geolocation = True, permissions = Some (QueryResolves denied),
      one_shot = Inl (GeolocationPositionError PERMISSION_DENIED), sink_now = 2000,
      sink_answer = SinkResolved None, watch_id = 1, interval_id = 2\<rparr>"

text \<open>A browser without \<^verbatim>\<open>navigator.geolocation\<close>.\<close>

definition unsupported_env :: start_env where
  "unsupported_env =
     \<lparr>geolocation = False, permissions = None,
      one_shot = Inl (GeolocationPositionError POSITION_UNAVAILABLE), sink_now = 2000,
      sink_answer = SinkResolved None, watch_id = 1, interval_id = 2\<rparr>"

text \<open>The session after \<^verbatim>\<open>startTracking\<close> succeeded for driver-42, and after it was stopped.\<close>

definition driver42_active :: hook_state where
  "driver42_active = startTracking (Some ''driver-42'') driver42_env initial_state"

definition driver42_stopped :: hook_state where
  "driver42_stopped = stopTracking driver42_active"

definition driver42_position2 :: GeolocationPosition where
  "driver42_position2 =
     \<lparr>coords_latitude = 13.0, coords_longitude = 77.5, position_timestamp = 5000\<rparr>"

text \<open>A stored position on the equator.\<close>

definition equator_row :: driver_row where
  "equator_row =
     \<lparr>current_latitude = Some 0, current_longitude = Some 77.6,
      last_location_update = Some ''2024-01-01T00:00:00.000Z''\<rparr>"

subsection \<open>The invariant the hook keeps\<close>

text \<open>
  While \<^verbatim>\<open>isTracking\<close> holds both refs are set, and the two refs are set or null
  together. Nothing is said about the refs of a session that is not tracking.
\<close>

definition handles_kept_while_active :: "hook_state \<Rightarrow> bool" where
  "handles_kept_while_active s =
     ((isTracking s \<longrightarrow> watchIdRef s \<noteq> None \<and> intervalRef s \<noteq> None)
      \<and> (watchIdRef s = None \<longleftrightarrow> intervalRef s = None))"

section \<open>Properties\<close>

lemmas hook_defs =
  startTracking_def startTracking_try_def permission_check_def permission_check_try_def
  getCurrentPosition_def getCurrentPosition_reject_def updateDriverLocation_def
  updateDriverLocation_try_def record_call_def truthy_string_def toLocationData_def

lemmas example_defs =
  driver42_env_def driver42_position_def denied_env_def unsupported_env_def initial_state_def
  PERMISSION_DENIED_def POSITION_UNAVAILABLE_def TIMEOUT_def

subsection \<open>What the building blocks leave alone\<close>

lemma updateDriverLocation_frame:
  "isTracking (snd (updateDriverLocation d la lo now r s)) = isTracking s"
  "watchIdRef (snd (updateDriverLocation d la lo now r s)) = watchIdRef s"
  "intervalRef (snd (updateDriverLocation d la lo now r s)) = intervalRef s"
  "currentLocation (snd (updateDriverLocation d la lo now r s)) = currentLocation s"
  "fst (updateDriverLocation d la lo now r s) = None"
  by (simp_all add: updateDriverLocation_def record_call_def Let_def split: option.splits)

lemma updateDriverLocation_falsy:
  "\<not> truthy_string d \<Longrightarrow> updateDriverLocation d la lo now r s = (None, s)"
  by (simp add: updateDriverLocation_def)

lemma updateDriverLocation_truthy:
  assumes "truthy_string d"
  shows "calls (snd (updateDriverLocation d la lo now r s))
           = calls s @ [SinkUpdate (the d) la lo now]"
    and "error (snd (updateDriverLocation d la lo now r s))
           = (case updateDriverLocation_try r of
                None \<Rightarrow> error s
              | Some (ErrorInstance m) \<Rightarrow> Some m
              | Some NonError \<Rightarrow> Some msg_failed_to_update)"
  using assms
  by (simp_all add: updateDriverLocation_def record_call_def Let_def
      split: option.splits thrown.splits)

lemma updateDriverLocation_never_throws:
  "updateDriverLocation d la lo now r s \<noteq> (Some x, s')"
  using updateDriverLocation_frame(5) [of d la lo now r s] by auto

lemma getCurrentPosition_frame:
  "isTracking (snd (getCurrentPosition geo a s)) = isTracking s"
  "watchIdRef (snd (getCurrentPosition geo a s)) = watchIdRef s"
  "intervalRef (snd (getCurrentPosition geo a s)) = intervalRef s"
  "currentLocation (snd (getCurrentPosition geo a s)) = currentLocation s"
  "error (snd (getCurrentPosition geo a s)) = error s"
  by (simp_all add: getCurrentPosition_def record_call_def Let_def split: sum.splits)

lemma permission_check_frame:
  "isTracking (permission_check p s) = isTracking s"
  "watchIdRef (permission_check p s) = watchIdRef s"
  "intervalRef (permission_check p s) = intervalRef s"
  "currentLocation (permission_check p s) = currentLocation s"
  "error (permission_check p s) = error s"
  by (simp_all add: permission_check_def permission_check_try_def record_call_def Let_def
        split: option.splits permission_query.splits)

lemma watchPosition_success_fix:
  "watchPosition_success d p now r s
     = snd (updateDriverLocation d (coords_latitude p) (coords_longitude p) now r
         (s\<lparr>currentLocation := Some (toLocationData p)\<rparr>))"
  by (simp add: watchPosition_success_def Let_def toLocationData_def)

lemma interval_callback_fix:
  "interval_callback d True (Inr p) now r s
     = snd (updateDriverLocation d (coords_latitude p) (coords_longitude p) now r
         ((record_call GetCurrentPosition s)\<lparr>currentLocation := Some (toLocationData p)\<rparr>))"
  by (simp add: interval_callback_def getCurrentPosition_def Let_def toLocationData_def
      split: prod.splits)

lemma watchPosition_error_frame:
  "error (watchPosition_error (GeolocationPositionError PERMISSION_DENIED) s)
     = Some msg_permission_revoked"
  "error (watchPosition_error (GeolocationPositionError POSITION_UNAVAILABLE) s)
     = Some msg_signal_lost"
  "error (watchPosition_error (GeolocationPositionError TIMEOUT) s)
     = Some msg_tracking_timed_out"
  "isTracking (watchPosition_error err s) = False"
  "intervalRef (watchPosition_error err s) = intervalRef s"
  "watchIdRef (watchPosition_error err s) = watchIdRef s"
  "calls (watchPosition_error err s) = calls s"
  "currentLocation (watchPosition_error err s) = currentLocation s"
  by (simp_all add: watchPosition_error_def PERMISSION_DENIED_def POSITION_UNAVAILABLE_def
      TIMEOUT_def)

lemma stopTracking_clears:
  "watchIdRef (stopTracking s) = None" "intervalRef (stopTracking s) = None"
  "\<not> isTracking (stopTracking s)" "error (stopTracking s) = None"
  by (simp_all add: stopTracking_def record_call_def Let_def split: option.splits)

subsection \<open>The two outcomes of startTracking\<close>

lemma startTracking_try_fails_iff:
  "(fst (startTracking_try d env s) \<noteq> None) = (\<not> geolocation env \<or> isl (one_shot env))"
  using updateDriverLocation_never_throws [of d _ _ "sink_now env" "sink_answer env"]
  by (auto simp: startTracking_try_def getCurrentPosition_def Let_def
      split: sum.splits prod.splits option.splits)

lemma startTracking_succeeds:
  assumes "fst (startTracking_try d env s) = None"
  shows "isTracking (startTracking d env s)"
    and "watchIdRef (startTracking d env s) = Some (watch_id env)"
    and "intervalRef (startTracking d env s) = Some (interval_id env)"
  using assms
  by (auto simp: startTracking_def startTracking_try_def Let_def record_call_def
      split: if_splits prod.splits sum.splits option.splits)

lemma startTracking_fails:
  assumes "fst (startTracking_try d env s) = Some e"
  shows "\<not> isTracking (startTracking d env s)"
    and "watchIdRef (startTracking d env s) = watchIdRef s"
    and "intervalRef (startTracking d env s) = intervalRef s"
    and "currentLocation (startTracking d env s) = currentLocation s"
proof -
  obtain a s3 where g: "getCurrentPosition (geolocation env) (one_shot env)
      (permission_check (permissions env) (s\<lparr>error := None\<rparr>)) = (a, s3)"
    by (cases "getCurrentPosition (geolocation env) (one_shot env)
      (permission_check (permissions env) (s\<lparr>error := None\<rparr>))")
  have s3: "isTracking s3 = isTracking s" "watchIdRef s3 = watchIdRef s"
     "intervalRef s3 = intervalRef s" "currentLocation s3 = currentLocation s"
    using getCurrentPosition_frame [of "geolocation env" "one_shot env"
      "permission_check (permissions env) (s\<lparr>error := None\<rparr>)"]
    by (simp_all add: g permission_check_frame)
  show "\<not> isTracking (startTracking d env s)"
    and "watchIdRef (startTracking d env s) = watchIdRef s"
    and "intervalRef (startTracking d env s) = intervalRef s"
    and "currentLocation (startTracking d env s) = currentLocation s"
    using assms g s3 updateDriverLocation_never_throws [of d _ _ "sink_now env" "sink_answer env"]
    by (auto simp: startTracking_def startTracking_try_def Let_def
        split: if_splits prod.splits sum.splits option.splits)
qed

lemma startTracking_fails_calls:
  assumes "fst (startTracking_try d env s) = Some e"
  shows "count_list (calls (startTracking d env s)) WatchPosition
           = count_list (calls s) WatchPosition"
    and "count_list (calls (startTracking d env s)) SetInterval
           = count_list (calls s) SetInterval"
  using assms updateDriverLocation_never_throws [of d _ _ "sink_now env" "sink_answer env"]
  by (auto simp: startTracking_def startTracking_try_def getCurrentPosition_def
      permission_check_def permission_check_try_def record_call_def Let_def
      split: sum.splits prod.splits option.splits if_splits permission_query.splits)

lemma startTracking_falsy_sink_calls:
  "\<not> truthy_string d \<Longrightarrow>
   filter is_sink_call (calls (startTracking d env s)) = filter is_sink_call (calls s)"
  by (simp add: startTracking_def startTracking_try_def permission_check_def
        permission_check_try_def getCurrentPosition_def updateDriverLocation_falsy
        record_call_def Let_def
      split: option.splits permission_query.splits sum.splits)

subsection \<open>Every transition keeps the invariant\<close>

lemma startTracking_kept:
  assumes "handles_kept_while_active s"
  shows "handles_kept_while_active (startTracking d env s)"
proof (cases "fst (startTracking_try d env s)")
  case None
  then show ?thesis
    by (simp add: handles_kept_while_active_def startTracking_succeeds)
next
  case (Some e)
  then show ?thesis
    using assms by (simp add: handles_kept_while_active_def startTracking_fails)
qed

lemma interval_callback_kept:
  assumes "handles_kept_while_active s"
  shows "handles_kept_while_active (interval_callback d geo a now r s)"
proof -
  obtain x s1 where g: "getCurrentPosition geo a s = (x, s1)"
    by (cases "getCurrentPosition geo a s")
  have s1: "isTracking s1 = isTracking s" "watchIdRef s1 = watchIdRef s"
    "intervalRef s1 = intervalRef s"
    using getCurrentPosition_frame [of geo a s] by (simp_all add: g)
  show ?thesis
  proof (cases x)
    case (Inl e)
    then show ?thesis
      using assms g s1 by (simp add: interval_callback_def handles_kept_while_active_def)
  next
    case (Inr p)
    have "interval_callback d geo a now r s
        = snd (updateDriverLocation d (lat (toLocationData p)) (lng (toLocationData p)) now r
            (s1\<lparr>currentLocation := Some (toLocationData p)\<rparr>))"
      using g Inr by (simp add: interval_callback_def Let_def split: prod.splits)
    then show ?thesis
      using assms s1 by (simp add: handles_kept_while_active_def updateDriverLocation_frame)
  qed
qed

lemma step_kept:
  assumes "handles_kept_while_active s"
  shows "handles_kept_while_active (step d e s)"
proof (cases e)
  case (Start env)
  then show ?thesis using assms by (simp add: startTracking_kept)
next
  case Stop
  then show ?thesis by (simp add: handles_kept_while_active_def stopTracking_clears)
next
  case (WatchFix p now r)
  then show ?thesis using assms
    by (simp add: watchPosition_success_def Let_def updateDriverLocation_frame
        handles_kept_while_active_def)
next
  case (WatchFailure err)
  then show ?thesis using assms
    by (simp add: watchPosition_error_def handles_kept_while_active_def)
next
  case (Tick geo a now r)
  then show ?thesis using assms by (simp add: interval_callback_kept)
next
  case (Manual la lo dn now r)
  then show ?thesis using assms
    by (simp add: updateLocation_def Let_def updateDriverLocation_frame
        handles_kept_while_active_def)
next
  case (Fetched r p n)
  then show ?thesis using assms
    by (auto simp: mount_effect_def fetchCurrentLocation_def fetchCurrentLocation_try_def
        record_call_def Let_def handles_kept_while_active_def
        split: select_response.splits option.splits)
next
  case (Realtime row p n)
  then show ?thesis using assms
    by (auto simp: realtime_update_def realtime_handler_def handles_kept_while_active_def)
qed

lemma run_kept:
  "handles_kept_while_active s \<Longrightarrow> handles_kept_while_active (run d es s)"
  by (induction es arbitrary: s) (simp_all add: step_kept)

lemma initial_kept: "handles_kept_while_active initial_state"
  by (simp add: handles_kept_while_active_def initial_state_def)

section \<open>The claims\<close>

subsection \<open>The sentinel subject\<close>

text \<open>
  C1, as stated, fails: \<^verbatim>\<open>startTracking\<close> has no test of \<^verbatim>\<open>driverId\<close>. Called for the
  sentinel \<^verbatim>\<open>'all'\<close> in a browser that grants the position, it queries the permission,
  asks the sensor for a position, writes that position to the backend under the id
  \<^verbatim>\<open>'all'\<close>, and installs the watch and the timer.
\<close>

theorem startTracking_sentinel_counterexample:
  "calls (startTracking (Some ''all'') driver42_env initial_state)
     = [PermissionsQuery, GetCurrentPosition, SinkUpdate ''all'' 12.9 77.6 2000,
        WatchPosition, SetInterval]
   \<and> \<not> (filter is_sensor_call (calls (startTracking (Some ''all'') driver42_env initial_state)) = []
        \<and> filter is_sink_call (calls (startTracking (Some ''all'') driver42_env initial_state)) = [])"
  by (simp add: hook_defs example_defs)

text \<open>
  C1, amended. The gate is in the component that calls the hook: for the empty subject
  or \<^verbatim>\<open>'all'\<close>, \<^verbatim>\<open>canTrack\<close> is false, no start button is rendered, and a click changes
  nothing and calls nothing. \<^verbatim>\<open>startTracking\<close> itself goes on to the sensor for every
  subject; for an empty or undefined subject it makes no call on the persistence sink,
  because \<^verbatim>\<open>updateDriverLocation\<close> returns at once.
\<close>

theorem sentinel_gated_by_component:
  assumes "driverId = '''' \<or> driverId = ''all''"
  shows "\<not> canTrack driverId
       \<and> click_start driverId hasPermission permissionStatus env s = s
       \<and> filter is_sink_call (calls (startTracking (Some '''') env s))
           = filter is_sink_call (calls s)
       \<and> filter is_sink_call (calls (startTracking None env s))
           = filter is_sink_call (calls s)"
proof -
  have "\<not> canTrack driverId"
    using assms by (auto simp: canTrack_def)
  moreover from this have "click_start driverId hasPermission permissionStatus env s = s"
    by (simp add: click_start_def start_button_enabled_def)
  moreover have "\<not> truthy_string (Some '''')" "\<not> truthy_string None"
    by (simp_all add: truthy_string_def)
  ultimately show ?thesis
    by (simp add: startTracking_falsy_sink_calls)
qed

theorem sentinel_gated_by_component_witness:
  "(''all'' = '''' \<or> ''all'' = ''all'')
   \<and> click_start ''all'' True (Some granted) driver42_env initial_state = initial_state
   \<and> filter is_sink_call (calls (startTracking (Some '''') driver42_env initial_state)) = []"
  using sentinel_gated_by_component [of "''all''" True "Some granted" driver42_env initial_state]
  by (simp add: initial_state_def)

subsection \<open>Permission reported as denied\<close>

text \<open>
  C2 asks that a permission query reporting \<^verbatim>\<open>denied\<close> makes \<^verbatim>\<open>startTracking\<close> fail
  before the sensor is asked. The source throws the blocked-permission error inside the
  inner \<^verbatim>\<open>try\<close>, whose own \<^verbatim>\<open>catch (permErr)\<close> takes it and only warns; the code goes on
  to \<^verbatim>\<open>getCurrentPosition\<close>. Here the query reports \<^verbatim>\<open>denied\<close> and the one-shot request
  is made all the same; the error that ends the activation is the sensor's.
\<close>

theorem startTracking_denied_reaches_sensor:
  "permissions denied_env = Some (QueryResolves denied)
   \<and> fst (permission_check_try (QueryResolves denied) initial_state)
       = Some (ErrorInstance msg_permission_blocked)
   \<and> calls (startTracking (Some ''driver-42'') denied_env initial_state)
       = [PermissionsQuery, GetCurrentPosition]"
  by (simp add: hook_defs example_defs)

subsection \<open>Handles and the active flag\<close>

text \<open>
  C3, as stated, fails: after a successful \<^verbatim>\<open>startTracking\<close>, the error callback of the
  watch (here with the cause \<^verbatim>\<open>PERMISSION_DENIED\<close>) sets \<^verbatim>\<open>isTracking\<close> to false and
  leaves both refs set.
\<close>

theorem session_handles_counterexample:
  "\<not> handles_match_active
       (run (Some ''driver-42'')
          [Start driver42_env, WatchFailure (GeolocationPositionError PERMISSION_DENIED)]
          initial_state)"
  by (simp add: handles_match_active_def watchPosition_error_def hook_defs example_defs)

text \<open>
  C3, amended. In every state a session reaches from the initial one, whatever the
  events: if the session is active then both handles are non-null, and the two handles
  are null together or non-null together. After \<^verbatim>\<open>stopTracking\<close> both handles are null
  and the session is inactive; after a \<^verbatim>\<open>startTracking\<close> that succeeds both are non-null
  (they are the handles \<^verbatim>\<open>watchPosition\<close> and \<^verbatim>\<open>setInterval\<close> returned) and the session
  is active. (An inactive session may hold both handles.)
\<close>

theorem session_handles_kept:
  "handles_kept_while_active (run d es initial_state)
   \<and> watchIdRef (stopTracking (run d es initial_state)) = None
   \<and> intervalRef (stopTracking (run d es initial_state)) = None
   \<and> isTracking (stopTracking (run d es initial_state)) = False
   \<and> (fst (startTracking_try d env (run d es initial_state)) = None \<longrightarrow>
        watchIdRef (startTracking d env (run d es initial_state)) = Some (watch_id env)
      \<and> intervalRef (startTracking d env (run d es initial_state)) = Some (interval_id env)
      \<and> isTracking (startTracking d env (run d es initial_state)) = True)"
  by (simp add: run_kept initial_kept stopTracking_clears startTracking_succeeds)

theorem session_handles_kept_witness:
  "fst (startTracking_try (Some ''driver-42'') driver42_env
         (run (Some ''driver-42'')
            [Start driver42_env, WatchFailure (GeolocationPositionError PERMISSION_DENIED)]
            initial_state)) = None
   \<and> handles_kept_while_active
        (run (Some ''driver-42'')
           [Start driver42_env, WatchFailure (GeolocationPositionError PERMISSION_DENIED)]
           initial_state)
   \<and> watchIdRef
        (startTracking (Some ''driver-42'') driver42_env
           (run (Some ''driver-42'')
              [Start driver42_env, WatchFailure (GeolocationPositionError PERMISSION_DENIED)]
              initial_state)) = Some 1
   \<and> intervalRef
        (startTracking (Some ''driver-42'') driver42_env
           (run (Some ''driver-42'')
              [Start driver42_env, WatchFailure (GeolocationPositionError PERMISSION_DENIED)]
              initial_state)) = Some 2
   \<and> isTracking
        (startTracking (Some ''driver-42'') driver42_env
           (run (Some ''driver-42'')
              [Start driver42_env, WatchFailure (GeolocationPositionError PERMISSION_DENIED)]
              initial_state))
   \<and> watchIdRef
        (stopTracking
           (run (Some ''driver-42'')
              [Start driver42_env, WatchFailure (GeolocationPositionError PERMISSION_DENIED)]
              initial_state)) = None
   \<and> intervalRef
        (stopTracking
           (run (Some ''driver-42'')
              [Start driver42_env, WatchFailure (GeolocationPositionError PERMISSION_DENIED)]
              initial_state)) = None"
  using session_handles_kept [of "Some ''driver-42''"
      "[Start driver42_env, WatchFailure (GeolocationPositionError PERMISSION_DENIED)]"
      driver42_env]
  by (simp add: watchPosition_error_def hook_defs example_defs)

subsection \<open>The watch reports an error\<close>

text \<open>
  C4 asks that a timeout reported by the watch leaves the session active. The handler
  chooses the message by the cause and then calls \<^verbatim>\<open>setIsTracking(false)\<close> for every
  cause: in an active session the timeout sets the message that ends in
  \<open>Retrying...\<close>, marks the session inactive, and leaves the watch and the timer
  installed.
\<close>

theorem watch_timeout_marks_inactive:
  "isTracking driver42_active
   \<and> \<not> isTracking (watchPosition_error (GeolocationPositionError TIMEOUT) driver42_active)
   \<and> error (watchPosition_error (GeolocationPositionError TIMEOUT) driver42_active)
       = Some ''Location tracking timed out. Retrying...''
   \<and> watchIdRef (watchPosition_error (GeolocationPositionError TIMEOUT) driver42_active) = Some 1
   \<and> intervalRef (watchPosition_error (GeolocationPositionError TIMEOUT) driver42_active) = Some 2"
  by (simp add: driver42_active_def watchPosition_error_def msg_tracking_timed_out_def
      hook_defs example_defs)

subsection \<open>Activation without a sensor\<close>

text \<open>
  C5. When \<^verbatim>\<open>navigator.geolocation\<close> is absent, \<^verbatim>\<open>startTracking\<close> fails with the
  not-supported error: that error reaches the \<^verbatim>\<open>catch\<close>, its message becomes the session
  error, the session ends inactive, and no call at all is made on a collaborator, so
  neither a subscription nor a poll timer is started and both handles stay as they were.
\<close>

theorem startTracking_unsupported:
  assumes "\<not> geolocation env"
  shows "fst (startTracking_try driverId env s) = Some (ErrorInstance msg_not_supported)
       \<and> error (startTracking driverId env s) = Some msg_not_supported
       \<and> isTracking (startTracking driverId env s) = False
       \<and> watchIdRef (startTracking driverId env s) = watchIdRef s
       \<and> intervalRef (startTracking driverId env s) = intervalRef s
       \<and> calls (startTracking driverId env s) = calls s"
  using assms by (simp add: startTracking_def startTracking_try_def)

theorem startTracking_unsupported_witness:
  "\<not> geolocation unsupported_env
   \<and> error (startTracking (Some ''driver-42'') unsupported_env initial_state)
       = Some msg_not_supported
   \<and> isTracking (startTracking (Some ''driver-42'') unsupported_env initial_state) = False
   \<and> calls (startTracking (Some ''driver-42'') unsupported_env initial_state) = []"
  using startTracking_unsupported [of unsupported_env "Some ''driver-42''" initial_state]
  by (simp add: unsupported_env_def initial_state_def)

subsection \<open>Dispatch of a fix\<close>

text \<open>
  C6. For a non-empty subject, one call of the watch's success callback stores the fix
  (its latitude, its longitude and its timestamp, no address) as the current location
  and makes exactly one call on the persistence sink, with that fix;
  one call of the timer's callback whose one-shot request is answered with a fix does the
  same (after its call on the sensor). The log of calls grows by exactly these calls.
\<close>

theorem fix_dispatched_once:
  assumes "truthy_string d"
  shows "currentLocation (watchPosition_success d p now r s)
           = Some \<lparr>lat = coords_latitude p, lng = coords_longitude p, address = None,
                   timestamp = Some (position_timestamp p)\<rparr>
       \<and> calls (watchPosition_success d p now r s)
           = calls s @ [SinkUpdate (the d) (coords_latitude p) (coords_longitude p) now]
       \<and> currentLocation (interval_callback d True (Inr p) now r s)
           = Some \<lparr>lat = coords_latitude p, lng = coords_longitude p, address = None,
                   timestamp = Some (position_timestamp p)\<rparr>
       \<and> calls (interval_callback d True (Inr p) now r s)
           = calls s @ [GetCurrentPosition,
                        SinkUpdate (the d) (coords_latitude p) (coords_longitude p) now]"
  using assms
  by (simp add: watchPosition_success_fix interval_callback_fix updateDriverLocation_frame
      updateDriverLocation_truthy record_call_def toLocationData_def)

theorem fix_dispatched_once_witness:
  "truthy_string (Some ''driver-42'')
   \<and> currentLocation (watchPosition_success (Some ''driver-42'') driver42_position 3000
        (SinkResolved None) driver42_active)
       = Some \<lparr>lat = 12.9, lng = 77.6, address = None, timestamp = Some 1000\<rparr>
   \<and> calls (watchPosition_success (Some ''driver-42'') driver42_position 3000
        (SinkResolved None) driver42_active)
       = calls driver42_active @ [SinkUpdate ''driver-42'' 12.9 77.6 3000]
   \<and> currentLocation (interval_callback (Some ''driver-42'') True (Inr driver42_position2) 6000
        (SinkResolved None) driver42_active)
       = Some \<lparr>lat = 13.0, lng = 77.5, address = None, timestamp = Some 5000\<rparr>
   \<and> calls (interval_callback (Some ''driver-42'') True (Inr driver42_position2) 6000
        (SinkResolved None) driver42_active)
       = calls driver42_active @ [GetCurrentPosition, SinkUpdate ''driver-42'' 13.0 77.5 6000]"
  using fix_dispatched_once [of "Some ''driver-42''" driver42_position 3000
      "SinkResolved None" driver42_active]
    fix_dispatched_once [of "Some ''driver-42''" driver42_position2 6000
      "SinkResolved None" driver42_active]
  by (simp add: truthy_string_def driver42_position_def driver42_position2_def)

subsection \<open>The persistence sink fails\<close>

text \<open>
  C7. When the backend's answer to an update is a failure, that is, the promise rejects
  or it resolves with an error in the response, for a non-empty subject: \<^verbatim>\<open>updateDriverLocation\<close> throws nothing to its
  caller; the session error becomes the failure's message (or the fallback message);
  \<^verbatim>\<open>isTracking\<close> is what it was, so an active session stays active; and the next fix,
  from the watch or from the timer, is stored and sent to the sink as usual.
\<close>

theorem sink_failure_recorded:
  assumes "truthy_string d" and "r = SinkRejected e \<or> r = SinkResolved (Some e)"
  shows "fst (updateDriverLocation d la lo now r s) = None
       \<and> error (watchPosition_success d p now r s)
           = Some (case e of ErrorInstance m \<Rightarrow> m | NonError \<Rightarrow> msg_failed_to_update)
       \<and> error (interval_callback d True (Inr p) now r s)
           = Some (case e of ErrorInstance m \<Rightarrow> m | NonError \<Rightarrow> msg_failed_to_update)
       \<and> isTracking (watchPosition_success d p now r s) = isTracking s
       \<and> isTracking (interval_callback d True (Inr p) now r s) = isTracking s
       \<and> currentLocation (watchPosition_success d p' now' r' (watchPosition_success d p now r s))
           = Some \<lparr>lat = coords_latitude p', lng = coords_longitude p', address = None,
                   timestamp = Some (position_timestamp p')\<rparr>
       \<and> calls (watchPosition_success d p' now' r' (watchPosition_success d p now r s))
           = calls (watchPosition_success d p now r s)
               @ [SinkUpdate (the d) (coords_latitude p') (coords_longitude p') now']
       \<and> currentLocation
             (interval_callback d True (Inr p') now' r' (interval_callback d True (Inr p) now r s))
           = Some \<lparr>lat = coords_latitude p', lng = coords_longitude p', address = None,
                   timestamp = Some (position_timestamp p')\<rparr>
       \<and> calls (interval_callback d True (Inr p') now' r' (interval_callback d True (Inr p) now r s))
           = calls (interval_callback d True (Inr p) now r s)
               @ [GetCurrentPosition,
                  SinkUpdate (the d) (coords_latitude p') (coords_longitude p') now']"
proof -
  have thrown: "updateDriverLocation_try r = Some e"
    using assms(2) by (auto simp: updateDriverLocation_try_def)
  have "error (watchPosition_success d p now r s)
           = Some (case e of ErrorInstance m \<Rightarrow> m | NonError \<Rightarrow> msg_failed_to_update)"
    and "error (interval_callback d True (Inr p) now r s)
           = Some (case e of ErrorInstance m \<Rightarrow> m | NonError \<Rightarrow> msg_failed_to_update)"
    using assms(1) thrown
    by (simp_all add: watchPosition_success_fix interval_callback_fix
        updateDriverLocation_truthy split: thrown.splits)
  moreover have "isTracking (watchPosition_success d p now r s) = isTracking s"
    and "isTracking (interval_callback d True (Inr p) now r s) = isTracking s"
    by (simp_all add: watchPosition_success_fix interval_callback_fix
        updateDriverLocation_frame record_call_def)
  moreover have "currentLocation (watchPosition_success d p' now' r' s1)
           = Some \<lparr>lat = coords_latitude p', lng = coords_longitude p', address = None,
                   timestamp = Some (position_timestamp p')\<rparr>"
    and "calls (watchPosition_success d p' now' r' s1)
           = calls s1 @ [SinkUpdate (the d) (coords_latitude p') (coords_longitude p') now']"
    and "currentLocation (interval_callback d True (Inr p') now' r' s1)
           = Some \<lparr>lat = coords_latitude p', lng = coords_longitude p', address = None,
                   timestamp = Some (position_timestamp p')\<rparr>"
    and "calls (interval_callback d True (Inr p') now' r' s1)
           = calls s1 @ [GetCurrentPosition,
                  SinkUpdate (the d) (coords_latitude p') (coords_longitude p') now']" for s1
    using assms(1)
    by (simp_all add: watchPosition_success_fix interval_callback_fix updateDriverLocation_frame
      updateDriverLocation_truthy record_call_def toLocationData_def)
  ultimately show ?thesis
    by (simp add: updateDriverLocation_frame)
qed

theorem sink_failure_recorded_witness:
  "truthy_string (Some ''driver-42'')
   \<and> isTracking driver42_active
   \<and> isTracking (watchPosition_success (Some ''driver-42'') driver42_position 3000
        (SinkResolved (Some (ErrorInstance ''row locked''))) driver42_active)
   \<and> error (watchPosition_success (Some ''driver-42'') driver42_position 3000
        (SinkResolved (Some (ErrorInstance ''row locked''))) driver42_active)
       = Some ''row locked''
   \<and> isTracking (interval_callback (Some ''driver-42'') True (Inr driver42_position) 3000
        (SinkRejected NonError) driver42_active)
   \<and> error (interval_callback (Some ''driver-42'') True (Inr driver42_position) 3000
        (SinkRejected NonError) driver42_active)
       = Some ''Failed to update location''
   \<and> currentLocation
        (watchPosition_success (Some ''driver-42'') driver42_position2 6000 (SinkResolved None)
          (watchPosition_success (Some ''driver-42'') driver42_position 3000
            (SinkResolved (Some (ErrorInstance ''row locked''))) driver42_active))
       = Some \<lparr>lat = 13.0, lng = 77.5, address = None, timestamp = Some 5000\<rparr>
   \<and> currentLocation
        (interval_callback (Some ''driver-42'') True (Inr driver42_position2) 6000
          (SinkResolved None)
          (interval_callback (Some ''driver-42'') True (Inr driver42_position) 3000
            (SinkRejected NonError) driver42_active))
       = Some \<lparr>lat = 13.0, lng = 77.5, address = None, timestamp = Some 5000\<rparr>"
  using sink_failure_recorded [where d = "Some ''driver-42''"
      and r = "SinkResolved (Some (ErrorInstance ''row locked''))"
      and e = "ErrorInstance ''row locked''" and now = 3000 and s = driver42_active
      and p = driver42_position and p' = driver42_position2 and now' = 6000
      and r' = "SinkResolved None"]
    sink_failure_recorded [where d = "Some ''driver-42''"
      and r = "SinkRejected NonError"
      and e = NonError and now = 3000 and s = driver42_active
      and p = driver42_position and p' = driver42_position2 and now' = 6000
      and r' = "SinkResolved None"]
  by (simp add: truthy_string_def driver42_active_def driver42_position2_def
      msg_failed_to_update_def startTracking_def startTracking_try_def permission_check_def
      permission_check_try_def getCurrentPosition_def updateDriverLocation_def
      updateDriverLocation_try_def record_call_def toLocationData_def example_defs)

subsection \<open>A manual update\<close>

text \<open>
  C8. For every latitude and longitude and in every state of the session, active or not,
  \<^verbatim>\<open>updateLocation\<close> with a non-empty subject stores the given coordinates (with the
  clock's time) as the current location and makes one update call on the persistence
  sink; it does not touch \<^verbatim>\<open>isTracking\<close> and throws nothing.
\<close>

theorem updateLocation_any_state:
  assumes "truthy_string d"
  shows "currentLocation (snd (updateLocation d la lo date_now now r s))
           = Some \<lparr>lat = la, lng = lo, address = None, timestamp = Some date_now\<rparr>
       \<and> calls (snd (updateLocation d la lo date_now now r s))
           = calls s @ [SinkUpdate (the d) la lo now]
       \<and> isTracking (snd (updateLocation d la lo date_now now r s)) = isTracking s
       \<and> fst (updateLocation d la lo date_now now r s) = None"
  using assms
  by (simp add: updateLocation_def Let_def updateDriverLocation_frame updateDriverLocation_truthy)

theorem updateLocation_any_state_witness:
  "truthy_string (Some ''driver-42'')
   \<and> \<not> isTracking initial_state
   \<and> currentLocation (snd (updateLocation (Some ''driver-42'') 12.0 77.0 4000 4001
        (SinkResolved None) initial_state))
       = Some \<lparr>lat = 12.0, lng = 77.0, address = None, timestamp = Some 4000\<rparr>
   \<and> calls (snd (updateLocation (Some ''driver-42'') 12.0 77.0 4000 4001
        (SinkResolved None) initial_state))
       = [SinkUpdate ''driver-42'' 12.0 77.0 4001]
   \<and> \<not> isTracking (snd (updateLocation (Some ''driver-42'') 12.0 77.0 4000 4001
        (SinkResolved None) initial_state))"
  using updateLocation_any_state [where d = "Some ''driver-42''" and la = "12.0" and lo = "77.0"
      and date_now = 4000 and now = 4001 and r = "SinkResolved None" and s = initial_state]
  by (simp add: truthy_string_def initial_state_def)

subsection \<open>A failed activation changes no fix and starts nothing\<close>

text \<open>
  C9. \<^verbatim>\<open>startTracking\<close> fails (a value reaches its \<^verbatim>\<open>catch\<close>) exactly when the sensor is
  absent or the one-shot request is rejected, whatever the cause. Whenever it fails, the
  current location is the one before the call, both refs are the ones before the call,
  no \<^verbatim>\<open>watchPosition\<close> and no \<^verbatim>\<open>setInterval\<close> call was made, and the session is
  inactive.
\<close>

theorem startTracking_failure_atomic:
  "(fst (startTracking_try d env s) \<noteq> None) = (\<not> geolocation env \<or> isl (one_shot env))
   \<and> (fst (startTracking_try d env s) \<noteq> None \<longrightarrow>
        currentLocation (startTracking d env s) = currentLocation s
      \<and> watchIdRef (startTracking d env s) = watchIdRef s
      \<and> intervalRef (startTracking d env s) = intervalRef s
      \<and> count_list (calls (startTracking d env s)) WatchPosition
          = count_list (calls s) WatchPosition
      \<and> count_list (calls (startTracking d env s)) SetInterval
          = count_list (calls s) SetInterval
      \<and> \<not> isTracking (startTracking d env s))"
  using startTracking_try_fails_iff [of d env s]
  by (auto simp: startTracking_fails startTracking_fails_calls)

theorem startTracking_failure_atomic_witness:
  "fst (startTracking_try (Some ''driver-42'') denied_env driver42_stopped) \<noteq> None
   \<and> currentLocation driver42_stopped
       = Some \<lparr>lat = 12.9, lng = 77.6, address = None, timestamp = Some 1000\<rparr>
   \<and> currentLocation (startTracking (Some ''driver-42'') denied_env driver42_stopped)
       = Some \<lparr>lat = 12.9, lng = 77.6, address = None, timestamp = Some 1000\<rparr>
   \<and> watchIdRef (startTracking (Some ''driver-42'') denied_env driver42_stopped) = None
   \<and> intervalRef (startTracking (Some ''driver-42'') denied_env driver42_stopped) = None"
  using startTracking_failure_atomic [of "Some ''driver-42''" denied_env driver42_stopped]
  by (simp add: driver42_stopped_def driver42_active_def stopTracking_def hook_defs example_defs)

subsection \<open>Stored coordinates that are zero\<close>

text \<open>
  C10. The fetch on mount and the realtime handler store a row as the current location
  only when its latitude and its longitude are both truthy. A row whose latitude is 0 or
  whose longitude is 0 changes nothing through either path; whenever one of the two paths
  changes the current location, both coordinates of the row were truthy; and a row with
  both coordinates truthy is stored.
\<close>

theorem zero_coordinate_not_read_back:
  "(current_latitude row = Some 0 \<or> current_longitude row = Some 0 \<longrightarrow>
        fetchCurrentLocation_try (SelectResolved (Some row) err) parsed date_now s
          = (err, s)
      \<and> currentLocation (fetchCurrentLocation d (SelectResolved (Some row) err) parsed date_now s)
          = currentLocation s
      \<and> currentLocation (mount_effect d (SelectResolved (Some row) err) parsed date_now s)
          = currentLocation s
      \<and> realtime_handler row parsed date_now s = s
      \<and> realtime_update d row parsed date_now s = s)
   \<and> (currentLocation (fetchCurrentLocation d r parsed date_now s) \<noteq> currentLocation s \<longrightarrow>
        (\<exists>row'. r = SelectResolved (Some row') None
           \<and> truthy_number (current_latitude row') \<and> truthy_number (current_longitude row')))
   \<and> (currentLocation (mount_effect d r parsed date_now s) \<noteq> currentLocation s \<longrightarrow>
        (\<exists>row'. r = SelectResolved (Some row') None
           \<and> truthy_number (current_latitude row') \<and> truthy_number (current_longitude row')))
   \<and> (currentLocation (realtime_update d row parsed date_now s) \<noteq> currentLocation s \<longrightarrow>
        truthy_number (current_latitude row) \<and> truthy_number (current_longitude row))
   \<and> (truthy_number (current_latitude row) \<and> truthy_number (current_longitude row) \<longrightarrow>
        currentLocation (realtime_handler row parsed date_now s)
          = Some (row_location row parsed date_now)
      \<and> fetchCurrentLocation_try (SelectResolved (Some row) None) parsed date_now s
          = (None, s\<lparr>currentLocation := Some (row_location row parsed date_now)\<rparr>))"
  by (auto simp: fetchCurrentLocation_def fetchCurrentLocation_try_def mount_effect_def
      realtime_update_def realtime_handler_def truthy_number_def record_call_def Let_def
      split: select_response.splits option.splits if_splits)

theorem zero_coordinate_not_read_back_witness:
  "(current_latitude equator_row = Some 0 \<or> current_longitude equator_row = Some 0)
   \<and> currentLocation (mount_effect (Some ''driver-42'') (SelectResolved (Some equator_row) None)
        1704067200000 1704067200500 initial_state) = None
   \<and> realtime_update (Some ''driver-42'') equator_row 1704067200000 1704067200500 driver42_active
       = driver42_active"
  using zero_coordinate_not_read_back [where row = equator_row and err = None
      and d = "Some ''driver-42''" and parsed = 1704067200000 and date_now = 1704067200500
      and s = initial_state]
    zero_coordinate_not_read_back [where row = equator_row
      and d = "Some ''driver-42''" and parsed = 1704067200000 and date_now = 1704067200500
      and s = driver42_active]
  by (simp add: equator_row_def initial_state_def)

end
